theory Spec2Isabelle
  imports Main "HOL-Library.Sublist"
begin

section \<open>The file system the module runs on\<close>

text \<open>
  The module \<^verbatim>\<open>modules/cmake.py\<close> touches the file system through
  \<^verbatim>\<open>os.path.isdir\<close>, \<^verbatim>\<open>os.path.isfile\<close>, \<^verbatim>\<open>tarfile\<close>, \<^verbatim>\<open>zipfile\<close>,
  \<^verbatim>\<open>tempfile.mkdtemp\<close> and \<^verbatim>\<open>shutil.rmtree\<close>. The world is a map from the paths
  the module names to what is found there.

  A directory carries what lies below it. A member is plain when the user who runs the
  module can remove it, and locked when it is a directory that holds something and that
  the user may not write to: \<^verbatim>\<open>rmtree\<close> cannot empty it.
\<close>

type_synonym path = string

datatype member = Plain string | Locked string

type_synonym tree = "member list"

datatype py_error =
  FileExistsError | FileNotFoundError | NotADirectoryError | IsADirectoryError
  | PermissionError | EOFError | ReadError | BadZipFile | KeyError | TypeError

text \<open>
  A regular file carries four answers, since the test of an archive and its unpacking are
  different calls that can disagree:
  \<^item> what \<^verbatim>\<open>tarfile.is_tarfile\<close> says of it: yes, no, or an exception
    (it catches \<^verbatim>\<open>TarError\<close> only: a cut-off compressed file raises
    \<^verbatim>\<open>EOFError\<close>, an unreadable file \<^verbatim>\<open>PermissionError\<close>);
  \<^item> what \<^verbatim>\<open>tarfile.open\<close> and \<^verbatim>\<open>extractall\<close> give: the members, with their
    permissions, or an exception (a cut-off archive can pass the test and fail here);
  \<^item> what \<^verbatim>\<open>zipfile.is_zipfile\<close> says of it: yes or no (it catches \<^verbatim>\<open>OSError\<close>
    and answers no);
  \<^item> what \<^verbatim>\<open>zipfile.ZipFile\<close> and \<^verbatim>\<open>extractall\<close> give: the names of the members
    (permissions are not restored), or an exception.
  One file can be a tar archive and a zip archive at once.
\<close>

datatype node =
    Dir tree
  | File "py_error + bool" "py_error + tree" bool "py_error + string list"

text \<open>
  \<^verbatim>\<open>tempfile.mkdtemp\<close> joins the temporary directory, the prefix \<^verbatim>\<open>tmp\<close> and a
  random name, and tries the next random name when the path exists already. The names it
  will draw are part of the world: a finite list, since \<^verbatim>\<open>mkdtemp\<close> gives up after
  \<^verbatim>\<open>TMP_MAX\<close> attempts.
\<close>

record world =
  entries :: "path \<rightharpoonup> node"
  tempdir :: path
  candidate_names :: "string list"

definition isdir :: "world \<Rightarrow> path \<Rightarrow> bool" where
  "isdir w p = (case entries w p of Some (Dir t) \<Rightarrow> True | _ \<Rightarrow> False)"

definition isfile :: "world \<Rightarrow> path \<Rightarrow> bool" where
  "isfile w p = (case entries w p of Some (File tp tu zp zu) \<Rightarrow> True | _ \<Rightarrow> False)"

definition is_tarfile :: "world \<Rightarrow> path \<Rightarrow> py_error + bool" where
  "is_tarfile w p =
     (case entries w p of
        None \<Rightarrow> Inl FileNotFoundError
      | Some (Dir t) \<Rightarrow> Inl IsADirectoryError
      | Some (File tp tu zp zu) \<Rightarrow> tp)"

definition is_zipfile :: "world \<Rightarrow> path \<Rightarrow> bool" where
  "is_zipfile w p = (case entries w p of Some (File tp tu zp zu) \<Rightarrow> zp | _ \<Rightarrow> False)"

fun mkdtemp_names :: "(path \<rightharpoonup> node) \<Rightarrow> path \<Rightarrow> string list \<Rightarrow> (path \<times> string list) option" where
  "mkdtemp_names es dir [] = None"
| "mkdtemp_names es dir (name # names) =
     (let file = dir @ ''/'' @ ''tmp'' @ name
      in if es file = None then Some (file, names) else mkdtemp_names es dir names)"

definition mkdtemp :: "world \<Rightarrow> (py_error + path) \<times> world" where
  "mkdtemp w =
     (case mkdtemp_names (entries w) (tempdir w) (candidate_names w) of
        None \<Rightarrow> (Inl FileExistsError, w\<lparr>candidate_names := []\<rparr>)
      | Some (file, names) \<Rightarrow>
          (Inr file, w\<lparr>entries := (entries w)(file \<mapsto> Dir []), candidate_names := names\<rparr>))"

text \<open>
  \<^verbatim>\<open>shutil.rmtree(p)\<close> raises when \<^verbatim>\<open>p\<close> is missing or is no directory, and
  raises \<^verbatim>\<open>PermissionError\<close> when it meets a locked member; the directory is then
  still there (what had been removed from it by then is not tracked).
\<close>

fun is_plain :: "member \<Rightarrow> bool" where
  "is_plain (Plain name) = True"
| "is_plain (Locked name) = False"

definition rmtree :: "path \<Rightarrow> world \<Rightarrow> (py_error + unit) \<times> world" where
  "rmtree p w =
     (case entries w p of
        None \<Rightarrow> (Inl FileNotFoundError, w)
      | Some (File tp tu zp zu) \<Rightarrow> (Inl NotADirectoryError, w)
      | Some (Dir t) \<Rightarrow>
          if list_all is_plain t
          then (Inr (), w\<lparr>entries := (entries w)(p := None)\<rparr>)
          else (Inl PermissionError, w))"

text \<open>
  \<^verbatim>\<open>with tarfile.open(src) as tar: tar.extractall(result)\<close> and
  \<^verbatim>\<open>with zipfile.ZipFile(src) as zip: zip.extractall(result)\<close>: the members of the
  archive are added below \<^verbatim>\<open>result\<close>, or the call raises and \<^verbatim>\<open>result\<close> stays as
  it was (what had been unpacked by then is not tracked).
\<close>

definition extract_into :: "tree \<Rightarrow> path \<Rightarrow> world \<Rightarrow> (py_error + unit) \<times> world" where
  "extract_into members dst w =
     (case entries w dst of
        None \<Rightarrow> (Inr (), w\<lparr>entries := (entries w)(dst \<mapsto> Dir members)\<rparr>)
      | Some (Dir t) \<Rightarrow> (Inr (), w\<lparr>entries := (entries w)(dst \<mapsto> Dir (t @ members))\<rparr>)
      | Some (File tp tu zp zu) \<Rightarrow> (Inl NotADirectoryError, w))"

definition tar_extractall :: "path \<Rightarrow> path \<Rightarrow> world \<Rightarrow> (py_error + unit) \<times> world" where
  "tar_extractall src dst w =
     (case entries w src of
        None \<Rightarrow> (Inl FileNotFoundError, w)
      | Some (Dir t) \<Rightarrow> (Inl IsADirectoryError, w)
      | Some (File tp tu zp zu) \<Rightarrow>
          (case tu of
             Inl e \<Rightarrow> (Inl e, w)
           | Inr members \<Rightarrow> extract_into members dst w))"

definition zip_extractall :: "path \<Rightarrow> path \<Rightarrow> world \<Rightarrow> (py_error + unit) \<times> world" where
  "zip_extractall src dst w =
     (case entries w src of
        None \<Rightarrow> (Inl FileNotFoundError, w)
      | Some (Dir t) \<Rightarrow> (Inl IsADirectoryError, w)
      | Some (File tp tu zp zu) \<Rightarrow>
          (case zu of
             Inl e \<Rightarrow> (Inl e, w)
           | Inr names \<Rightarrow> extract_into (map Plain names) dst w))"

section \<open>The module\<close>

subsection \<open>\<^verbatim>\<open>find_root_cmake\<close>\<close>

definition find_root_cmake :: "'a \<Rightarrow> 'a" where
  "find_root_cmake src_dir = src_dir"

subsection \<open>\<^verbatim>\<open>prepare_if_archive\<close>\<close>

text \<open>
  The result is Python's \<^verbatim>\<open>None\<close> or a path. In
  \<^verbatim>\<open>os.path.isfile(src) and tarfile.is_tarfile(src)\<close> the second test runs only when
  the first says yes, and nothing catches what it raises.
\<close>

definition prepare_if_archive :: "path \<Rightarrow> world \<Rightarrow> (py_error + path option) \<times> world" where
  "prepare_if_archive src w =
     (if isdir w src then (Inr (Some src), w)
      else
        (case (if isfile w src then is_tarfile w src else Inr False) of
           Inl e \<Rightarrow> (Inl e, w)
         | Inr True \<Rightarrow>
             (case mkdtemp w of
                (Inl e, w1) \<Rightarrow> (Inl e, w1)
              | (Inr result, w1) \<Rightarrow>
                  (case tar_extractall src result w1 of
                     (Inl e, w2) \<Rightarrow> (Inl e, w2)
                   | (Inr u, w2) \<Rightarrow> (Inr (Some result), w2)))
         | Inr False \<Rightarrow>
             if isfile w src \<and> is_zipfile w src then
               (case mkdtemp w of
                  (Inl e, w1) \<Rightarrow> (Inl e, w1)
                | (Inr result, w1) \<Rightarrow>
                    (case zip_extractall src result w1 of
                       (Inl e, w2) \<Rightarrow> (Inl e, w2)
                     | (Inr u, w2) \<Rightarrow> (Inr (Some result), w2)))
             else (Inr None, w)))"

subsection \<open>\<^verbatim>\<open>create_cmake_command\<close>\<close>

text \<open>
  A Python dictionary keeps its entries in insertion order: \<^verbatim>\<open>defines\<close> is a list of
  (name, value) pairs. \<^verbatim>\<open>for define in defines\<close> walks the names and
  \<^verbatim>\<open>defines[define]\<close> looks each one up.
\<close>

type_synonym dict = "(string \<times> string) list"

fun add_defines :: "dict \<Rightarrow> string list \<Rightarrow> string \<Rightarrow> py_error + string" where
  "add_defines defines [] command = Inr command"
| "add_defines defines (define # rest) command =
     (case map_of defines define of
        None \<Rightarrow> Inl KeyError
      | Some v \<Rightarrow> add_defines defines rest (command @ '' -D'' @ define @ ''='' @ v))"

definition create_cmake_command :: "path \<Rightarrow> path \<Rightarrow> string \<Rightarrow> dict option \<Rightarrow> py_error + string" where
  "create_cmake_command cmake_path project_dir install_dir defines =
     (let command = cmake_path;
          command = command @ '' -DCMAKE_INSTALL_PREFIX='' @ install_dir
      in case (case defines of
                 None \<Rightarrow> Inr command
               | Some ds \<Rightarrow> if ds = [] then Inr command else add_defines ds (map fst ds) command) of
           Inl e \<Rightarrow> Inl e
         | Inr command \<Rightarrow> Inr (command @ '' '' @ project_dir))"

subsection \<open>\<^verbatim>\<open>main\<close>\<close>

text \<open>
  \<^verbatim>\<open>module.params\<close> after \<^verbatim>\<open>AnsibleModule\<close> has read the task: \<^verbatim>\<open>src\<close> and
  \<^verbatim>\<open>install_dir\<close> are required, \<^verbatim>\<open>defines\<close> is optional, and \<^verbatim>\<open>cmake\<close> is
  optional with the default \<^verbatim>\<open>"cmake"\<close>.
\<close>

record task_args =
  src_arg :: path
  defines_arg :: "dict option"
  install_dir_arg :: string
  cmake_arg :: "path option"

definition cmake_param :: "task_args \<Rightarrow> path" where
  "cmake_param params = (case cmake_arg params of None \<Rightarrow> ''cmake'' | Some p \<Rightarrow> p)"

text \<open>
  A run ends in \<^verbatim>\<open>module.exit_json(changed=..., install_dir=...)\<close>, in
  \<^verbatim>\<open>module.fail_json(msg=...)\<close> (both leave the process at once), or in an exception
  nobody catches.
\<close>

datatype outcome = ExitJson bool string | FailJson string | Uncaught py_error

text \<open>
  \<^verbatim>\<open>module.run_command(command, check_rc=False, cwd=build_dir)\<close> has two ways out.
  When the tool ran, it gives the exit code, the output stream and the diagnostic stream.
  When the tool could not be started (no such program, no permission to execute it),
  \<^verbatim>\<open>run_command\<close> itself calls \<^verbatim>\<open>fail_json\<close> with the text of the operating
  system's error, \<^verbatim>\<open>[Errno 2] No such file or directory: ...\<close>, and the run ends
  there. The tools are external: what they answer is a parameter, and what they write
  themselves (the build tree, the installed files) is not part of the world, which holds
  the entries the module names.
\<close>

datatype os_error = OSError string string

definition to_native :: "os_error \<Rightarrow> string" where
  "to_native e = (case e of OSError errno strerror \<Rightarrow> ''[Errno '' @ errno @ ''] '' @ strerror)"

type_synonym runner = "string \<Rightarrow> path \<Rightarrow> world \<Rightarrow> os_error + (int \<times> string \<times> string)"

text \<open>Python's \<^verbatim>\<open>not x\<close> for a value that is \<^verbatim>\<open>None\<close> or a string.\<close>

definition falsy :: "string option \<Rightarrow> bool" where
  "falsy x = (case x of None \<Rightarrow> True | Some s \<Rightarrow> s = [])"

text \<open>
  The three statements that stand before each of the last three exits (lines 107 to 109,
  115 to 117 and 120 to 122):
  \<^verbatim>\<open>if src_dir != module.params['src']: rmtree(src_dir)\<close>, then
  \<^verbatim>\<open>rmtree(build_dir)\<close>. When the first \<^verbatim>\<open>rmtree\<close> raises, the second is not
  reached.
\<close>

definition remove_scratch :: "task_args \<Rightarrow> path \<Rightarrow> path \<Rightarrow> world \<Rightarrow> (py_error + unit) \<times> world" where
  "remove_scratch params src_dir build_dir w =
     (case (if src_dir \<noteq> src_arg params then rmtree src_dir w else (Inr (), w)) of
        (Inl e, w1) \<Rightarrow> (Inl e, w1)
      | (Inr u, w1) \<Rightarrow> rmtree build_dir w1)"

definition main :: "runner \<Rightarrow> task_args \<Rightarrow> world \<Rightarrow> outcome \<times> world" where
  "main run_command params w =
     (case prepare_if_archive (src_arg params) w of
        (Inl e, w1) \<Rightarrow> (Uncaught e, w1)
      | (Inr src_dir, w1) \<Rightarrow>
          if falsy src_dir
          then (FailJson ''Source is not a directory or known archive format'', w1)
          else
            let cmake_dir = find_root_cmake src_dir in
            if falsy cmake_dir
            then (FailJson ''Could not find CMake root directory'', w1)
            else
              (case (src_dir, cmake_dir) of
                 (Some src_dir, Some cmake_dir) \<Rightarrow>
                   (case mkdtemp w1 of
                      (Inl e, w2) \<Rightarrow> (Uncaught e, w2)
                    | (Inr build_dir, w2) \<Rightarrow>
                        (case create_cmake_command (cmake_param params) cmake_dir
                                (install_dir_arg params) (defines_arg params) of
                           Inl e \<Rightarrow> (Uncaught e, w2)
                         | Inr cmake_command \<Rightarrow>
                             (case run_command cmake_command build_dir w2 of
                                Inl e \<Rightarrow> (FailJson (to_native e), w2)
                              | Inr (rc, out, err) \<Rightarrow>
                                  if rc \<noteq> 0
                                  then
                                    (case remove_scratch params src_dir build_dir w2 of
                                       (Inl e, w3) \<Rightarrow> (Uncaught e, w3)
                                     | (Inr u, w3) \<Rightarrow>
                                         (FailJson (''Failed to generate build files, exit code '' @ err), w3))
                                  else
                                    (case run_command ''make install'' build_dir w2 of
                                       Inl e \<Rightarrow> (FailJson (to_native e), w2)
                                     | Inr (rc, out, err) \<Rightarrow>
                                         if rc \<noteq> 0
                                         then
                                           (case remove_scratch params src_dir build_dir w2 of
                                              (Inl e, w3) \<Rightarrow> (Uncaught e, w3)
                                            | (Inr u, w3) \<Rightarrow>
                                                (FailJson (''Failed to generate build files, exit code '' @ err), w3))
                                         else
                                           (case remove_scratch params src_dir build_dir w2 of
                                              (Inl e, w3) \<Rightarrow> (Uncaught e, w3)
                                            | (Inr u, w3) \<Rightarrow>
                                                (ExitJson True (install_dir_arg params), w3))))))
               | _ \<Rightarrow> (Uncaught TypeError, w1)))"

text \<open>
  The last case of \<^verbatim>\<open>main\<close> stands for a \<^verbatim>\<open>None\<close> used as a path; the two checks
  before it leave no way there.
\<close>

subsection \<open>Example worlds, tasks and tools\<close>

text \<open>
  A world with a project directory and a text file; one with a tar archive; one with a file that both
  \<^verbatim>\<open>tarfile\<close> and \<^verbatim>\<open>zipfile\<close> accept, unpacking to different members; one with a
  compressed tar archive cut off in its header, on which \<^verbatim>\<open>tarfile.is_tarfile\<close>
  raises; and one with a tar archive that holds a directory without write permission.
\<close>

definition world_dir :: world where
  "world_dir =
     \<lparr>entries = [''/src'' \<mapsto> Dir [Plain ''CMakeLists.txt''],
                 ''/notes.txt'' \<mapsto> File (Inr False) (Inl ReadError) False (Inl BadZipFile)],
      tempdir = ''/tmp'', candidate_names = [''a'', ''b'']\<rparr>"

definition world_tar :: world where
  "world_tar =
     \<lparr>entries = [''/proj.tar'' \<mapsto>
                   File (Inr True) (Inr [Plain ''CMakeLists.txt'']) False (Inl BadZipFile)],
      tempdir = ''/tmp'', candidate_names = [''a'', ''b'']\<rparr>"

definition world_both :: world where
  "world_both =
     \<lparr>entries = [''/proj.bin'' \<mapsto>
                   File (Inr True) (Inr [Plain ''from_tar'']) True (Inr [''from_zip''])],
      tempdir = ''/tmp'', candidate_names = [''a'', ''b'']\<rparr>"

definition world_cut :: world where
  "world_cut =
     \<lparr>entries = [''/cut.tar.gz'' \<mapsto>
                   File (Inl EOFError) (Inl EOFError) False (Inl BadZipFile)],
      tempdir = ''/tmp'', candidate_names = [''a'', ''b'']\<rparr>"

definition world_locked :: world where
  "world_locked =
     \<lparr>entries = [''/locked.tar'' \<mapsto>
                   File (Inr True) (Inr [Plain ''CMakeLists.txt'', Locked ''vendor''])
                        False (Inl BadZipFile)],
      tempdir = ''/tmp'', candidate_names = [''a'', ''b'']\<rparr>"

definition args_for :: "path \<Rightarrow> task_args" where
  "args_for p = \<lparr>src_arg = p, defines_arg = None, install_dir_arg = ''/opt/x'', cmake_arg = None\<rparr>"

text \<open>
  Tools that both succeed; a configure tool that ends with code 2; an install tool that
  ends with code 3; and a machine without \<^verbatim>\<open>cmake\<close>.
\<close>

definition run_ok :: runner where
  "run_ok command cwd w = Inr (0, [], [])"

definition run_fails :: runner where
  "run_fails command cwd w = Inr (2, [], ''boom'')"

definition run_install_fails :: runner where
  "run_install_fails command cwd w =
     (if command = ''make install'' then Inr (3, [], ''bang'') else Inr (0, [], []))"

definition run_no_cmake :: runner where
  "run_no_cmake command cwd w =
     (if command = ''make install'' then Inr (0, [], [])
      else Inl (OSError ''2'' ''No such file or directory: cmake''))"

lemmas os_defs = isdir_def isfile_def is_tarfile_def is_zipfile_def mkdtemp_def rmtree_def
  extract_into_def tar_extractall_def zip_extractall_def

lemmas module_defs = prepare_if_archive_def create_cmake_command_def cmake_param_def falsy_def
  find_root_cmake_def remove_scratch_def to_native_def main_def

lemmas example_defs = world_dir_def world_tar_def world_both_def world_cut_def
  world_locked_def args_for_def run_ok_def run_fails_def run_install_fails_def
  run_no_cmake_def

section \<open>Facts about the operating-system calls\<close>

text \<open>The path \<^verbatim>\<open>mkdtemp\<close> returns did not exist before, and is never empty.\<close>

lemma mkdtemp_names_Some:
  "mkdtemp_names es dir names = Some (file, rest) \<Longrightarrow> es file = None \<and> file \<noteq> []"
  by (induction names) (auto simp: Let_def split: if_splits)

lemma mkdtemp_Inr:
  assumes "mkdtemp w = (Inr d, w')"
  shows "entries w d = None" and "d \<noteq> []" and "entries w' = (entries w)(d \<mapsto> Dir [])"
    and "tempdir w' = tempdir w"
  using assms mkdtemp_names_Some [of "entries w" "tempdir w" "candidate_names w"]
  by (auto simp: mkdtemp_def split: option.splits prod.splits)

lemma mkdtemp_Inl:
  "mkdtemp w = (Inl e, w') \<Longrightarrow> entries w' = entries w \<and> e = FileExistsError"
  by (auto simp: mkdtemp_def split: option.splits prod.splits)

text \<open>
  \<^verbatim>\<open>rmtree\<close> touches the path it is given and no other; unpacking into a directory
  that \<^verbatim>\<open>mkdtemp\<close> has just made changes that directory and no other.
\<close>

lemma rmtree_frame:
  "rmtree p w = (r, w') \<Longrightarrow> q \<noteq> p \<Longrightarrow> entries w' q = entries w q"
  by (auto simp: rmtree_def split: option.splits node.splits if_splits)

lemma extract_into_fresh:
  assumes "mkdtemp w = (Inr d, w1)"
  shows "extract_into members d w1 = (Inr (), w1\<lparr>entries := (entries w1)(d \<mapsto> Dir members)\<rparr>)"
  using mkdtemp_Inr(3) [OF assms] by (simp add: extract_into_def)

lemma tar_extractall_fresh:
  assumes "entries w src = Some (File tp (Inr members) zp zu)" and "mkdtemp w = (Inr d, w1)"
  shows "tar_extractall src d w1 = (Inr (), w1\<lparr>entries := (entries w1)(d \<mapsto> Dir members)\<rparr>)"
proof -
  from assms(2) have d: "entries w d = None" "entries w1 = (entries w)(d \<mapsto> Dir [])"
    by (rule mkdtemp_Inr)+
  with assms(1) have "src \<noteq> d" by auto
  with d assms(1) show ?thesis
    by (simp add: tar_extractall_def extract_into_fresh [OF assms(2)])
qed

lemma extractall_fresh_world:
  assumes "mkdtemp w = (Inr d, w1)"
  shows "tar_extractall src d w1 = (r, w2) \<Longrightarrow> \<exists>t. entries w2 = (entries w)(d \<mapsto> Dir t)"
    and "zip_extractall src d w1 = (r, w2) \<Longrightarrow> \<exists>t. entries w2 = (entries w)(d \<mapsto> Dir t)"
  using mkdtemp_Inr(3) [OF assms] extract_into_fresh [OF assms]
  by (auto simp: tar_extractall_def zip_extractall_def split: option.splits node.splits sum.splits)

section \<open>The command builder and the root locator\<close>

text \<open>
  Walking the names of a dictionary and looking each one up gives the entries in their
  order; the lookup never fails.
\<close>

lemma add_defines_items:
  assumes "distinct (map fst ds)" and "set xs \<subseteq> set ds"
  shows "add_defines ds (map fst xs) command =
         Inr (command @ concat (map (\<lambda>(name, v). '' -D'' @ name @ ''='' @ v) xs))"
  using assms(2)
proof (induction xs arbitrary: command)
  case Nil
  then show ?case by simp
next
  case (Cons x xs)
  obtain name v where x: "x = (name, v)" by (cases x)
  with Cons.prems have "(name, v) \<in> set ds" by simp
  with assms(1) have "map_of ds name = Some v" by simp
  with Cons x show ?case by simp
qed

lemma add_defines_total:
  "set ks \<subseteq> fst ` set ds \<Longrightarrow> \<exists>c. add_defines ds ks command = Inr c"
proof (induction ks arbitrary: command)
  case Nil
  then show ?case by simp
next
  case (Cons k ks)
  then have "k \<in> fst ` set ds" by simp
  then obtain v where "map_of ds k = Some v"
    by (metis map_of_eq_None_iff not_Some_eq)
  with Cons show ?case by simp
qed

lemma create_cmake_command_total:
  "\<exists>c. create_cmake_command cmake_path project_dir install_dir defines = Inr c"
proof (cases "defines")
  case None
  then show ?thesis by (simp add: create_cmake_command_def)
next
  case (Some ds)
  obtain c where "add_defines ds (map fst ds) (cmake_path @ '' -DCMAKE_INSTALL_PREFIX='' @ install_dir) = Inr c"
    using add_defines_total [of "map fst ds" ds] by auto
  with Some show ?thesis by (simp add: create_cmake_command_def Let_def)
qed

text \<open>
  C3: for every tool path, project directory, install directory and non-empty defines
  mapping (a dictionary: its names are distinct), the command is the tool path, then
  \<^verbatim>\<open> -DCMAKE_INSTALL_PREFIX=\<close> and the install directory, then one
  \<^verbatim>\<open> -D<name>=<value>\<close> for each entry in the order of the mapping, then a blank and
  the project directory. For \<^verbatim>\<open>cmake\<close>, \<^verbatim>\<open>/src\<close>, \<^verbatim>\<open>/opt/x\<close> and
  \<^verbatim>\<open>{FOO: "1", BAR: "2"}\<close> that is
  \<^verbatim>\<open>cmake -DCMAKE_INSTALL_PREFIX=/opt/x -DFOO=1 -DBAR=2 /src\<close>.
\<close>

theorem create_cmake_command_defines:
  assumes "ds \<noteq> []" and "distinct (map fst ds)"
  shows "create_cmake_command cmake_path project_dir install_dir (Some ds) =
         Inr (cmake_path @ '' -DCMAKE_INSTALL_PREFIX='' @ install_dir
              @ concat (map (\<lambda>(name, v). '' -D'' @ name @ ''='' @ v) ds)
              @ '' '' @ project_dir)"
  using assms add_defines_items [of ds ds]
  by (simp add: create_cmake_command_def Let_def)

theorem create_cmake_command_defines_witness:
  "create_cmake_command ''cmake'' ''/src'' ''/opt/x'' (Some [(''FOO'', ''1''), (''BAR'', ''2'')]) =
     Inr ''cmake -DCMAKE_INSTALL_PREFIX=/opt/x -DFOO=1 -DBAR=2 /src''"
  using create_cmake_command_defines [of "[(''FOO'', ''1''), (''BAR'', ''2'')]" "''cmake''" "''/src''" "''/opt/x''"]
  by simp

text \<open>
  C4: when the defines mapping is \<^verbatim>\<open>None\<close>, the command has no
  \<^verbatim>\<open>-D<name>=<value>\<close> segment: it is the tool path, the install-prefix flag and the
  project directory.
\<close>

theorem create_cmake_command_no_defines:
  "create_cmake_command cmake_path project_dir install_dir None =
     Inr (cmake_path @ '' -DCMAKE_INSTALL_PREFIX='' @ install_dir @ '' '' @ project_dir)"
  by (simp add: create_cmake_command_def)

lemma builder_without_defines_example:
  "create_cmake_command ''cmake'' ''/src'' ''/opt/x'' None =
     Inr ''cmake -DCMAKE_INSTALL_PREFIX=/opt/x /src''"
  by (simp add: create_cmake_command_def)

text \<open>
  C6: for every input, the root locator \<^verbatim>\<open>find_root_cmake\<close> returns its input
  unchanged; it performs no search.
\<close>

theorem find_root_cmake_passthrough: "find_root_cmake src_dir = src_dir"
  by (simp add: find_root_cmake_def)

section \<open>Archive preparation\<close>

lemma prepare_if_archive_tar:
  assumes "entries w src = Some (File (Inr True) (Inr members) zp zu)"
  shows "prepare_if_archive src w =
           (case mkdtemp w of
              (Inl e, w1) \<Rightarrow> (Inl e, w1)
            | (Inr result, w1) \<Rightarrow>
                (Inr (Some result), w1\<lparr>entries := (entries w1)(result \<mapsto> Dir members)\<rparr>))"
proof -
  from assms have k: "\<not> isdir w src" "isfile w src" "is_tarfile w src = Inr True"
    by (simp_all add: isdir_def isfile_def is_tarfile_def)
  obtain r w1 where m: "mkdtemp w = (r, w1)" by (cases "mkdtemp w")
  show ?thesis
  proof (cases r)
    case (Inl e)
    with k m show ?thesis by (simp add: prepare_if_archive_def)
  next
    case (Inr d)
    with m assms have "tar_extractall src d w1 = (Inr (), w1\<lparr>entries := (entries w1)(d \<mapsto> Dir members)\<rparr>)"
      by (simp add: tar_extractall_fresh)
    with k m Inr show ?thesis by (simp add: prepare_if_archive_def)
  qed
qed

text \<open>What \<^verbatim>\<open>prepare_if_archive\<close> can answer, and the world it leaves.\<close>

lemma prepare_if_archive_cases:
  assumes "prepare_if_archive src w = (r, w1)"
  shows "(isdir w src \<and> r = Inr (Some src) \<and> w1 = w)
       \<or> (\<not> isdir w src \<and> w1 = w \<and> (r = Inr None \<or> (\<exists>e. r = Inl e)))
       \<or> (\<not> isdir w src \<and> isfile w src \<and> (\<exists>e. r = Inl e) \<and> entries w1 = entries w)
       \<or> (\<not> isdir w src \<and> isfile w src
            \<and> (\<exists>d t. entries w d = None \<and> d \<noteq> [] \<and> entries w1 = (entries w)(d \<mapsto> Dir t)
                   \<and> (r = Inr (Some d) \<or> (\<exists>e. r = Inl e))))"
proof (cases "isdir w src")
  case True
  with assms show ?thesis by (simp add: prepare_if_archive_def)
next
  case nd: False
  have unpack: ?thesis
    if f: "isfile w src"
      and eq: "(r, w1) = (case mkdtemp w of
                  (Inl e, w1) \<Rightarrow> (Inl e, w1)
                | (Inr result, w1) \<Rightarrow>
                    (case extractall src result w1 of
                       (Inl e, w2) \<Rightarrow> (Inl e, w2)
                     | (Inr u, w2) \<Rightarrow> (Inr (Some result), w2)))"
      and ex: "\<And>d w' r' w''. mkdtemp w = (Inr d, w') \<Longrightarrow> extractall src d w' = (r', w'')
                 \<Longrightarrow> \<exists>t. entries w'' = (entries w)(d \<mapsto> Dir t)"
    for extractall :: "path \<Rightarrow> path \<Rightarrow> world \<Rightarrow> (py_error + unit) \<times> world"
  proof -
    obtain r0 w0 where m: "mkdtemp w = (r0, w0)" by (cases "mkdtemp w")
    show ?thesis
    proof (cases r0)
      case (Inl e)
      with m eq nd f mkdtemp_Inl [of w e w0] show ?thesis by auto
    next
      case (Inr d)
      obtain r' w'' where x: "extractall src d w0 = (r', w'')" by (cases "extractall src d w0")
      from m Inr have fr: "entries w d = None" "d \<noteq> []"
        using mkdtemp_Inr [of w d w0] by simp_all
      from ex [OF m [unfolded Inr] x] obtain t where t: "entries w'' = (entries w)(d \<mapsto> Dir t)" ..
      from eq m Inr x have "w1 = w''" "r = Inr (Some d) \<or> (\<exists>e. r = Inl e)"
        by (cases r'; simp)+
      with nd f fr t show ?thesis by blast
    qed
  qed
  show ?thesis
  proof (cases "isfile w src")
    case False
    with nd assms show ?thesis by (simp add: prepare_if_archive_def)
  next
    case f: True
    show ?thesis
    proof (cases "is_tarfile w src")
      case (Inl e)
      with nd f assms show ?thesis by (auto simp add: prepare_if_archive_def)
    next
      case (Inr b)
      show ?thesis
      proof (cases b)
        case True
        with Inr nd f assms show ?thesis
          by (intro unpack [of tar_extractall] extractall_fresh_world(1))
             (simp_all add: prepare_if_archive_def)
      next
        case nt: False
        show ?thesis
        proof (cases "is_zipfile w src")
          case True
          with nt Inr nd f assms show ?thesis
            by (intro unpack [of zip_extractall] extractall_fresh_world(2))
               (simp_all add: prepare_if_archive_def)
        next
          case False
          with nt Inr nd f assms show ?thesis by (simp add: prepare_if_archive_def)
        qed
      qed
    qed
  qed
qed

lemma prepare_if_archive_kept:
  assumes "prepare_if_archive src w = (r, w1)" and "entries w q \<noteq> None"
  shows "entries w1 q = entries w q"
  using prepare_if_archive_cases [OF assms(1)] assms(2) by auto

lemma prepare_if_archive_Some:
  assumes "prepare_if_archive src w = (Inr (Some d), w1)"
  shows "(d = src \<and> isdir w src \<and> w1 = w)
       \<or> (\<not> isdir w src \<and> isfile w src \<and> entries w d = None \<and> d \<noteq> []
           \<and> (\<exists>t. entries w1 = (entries w)(d \<mapsto> Dir t)))"
  using prepare_if_archive_cases [OF assms] by auto

text \<open>
  C9: the source is tried as a directory, then as a tar archive, then as a zip archive.
  A regular file that is a valid tar archive and a valid zip archive at once is unpacked
  as a tar archive: the scratch directory holds the tar members, whatever the zip members
  are.
\<close>

theorem prepare_if_archive_tar_before_zip:
  assumes "entries w src = Some (File (Inr True) (Inr tar_members) True (Inr zip_members))"
  shows "prepare_if_archive src w =
           (case mkdtemp w of
              (Inl e, w1) \<Rightarrow> (Inl e, w1)
            | (Inr result, w1) \<Rightarrow>
                (Inr (Some result), w1\<lparr>entries := (entries w1)(result \<mapsto> Dir tar_members)\<rparr>))"
  using assms by (rule prepare_if_archive_tar)

theorem prepare_if_archive_tar_before_zip_witness:
  "fst (prepare_if_archive ''/proj.bin'' world_both) = Inr (Some ''/tmp/tmpa'')
   \<and> entries (snd (prepare_if_archive ''/proj.bin'' world_both)) ''/tmp/tmpa''
       = Some (Dir [Plain ''from_tar''])"
proof -
  have "entries world_both ''/proj.bin''
          = Some (File (Inr True) (Inr [Plain ''from_tar'']) True (Inr [''from_zip'']))"
    by (simp add: world_both_def)
  from prepare_if_archive_tar_before_zip [OF this] show ?thesis
    by (simp add: mkdtemp_def world_both_def)
qed

section \<open>The main procedure\<close>

lemma remove_scratch_frame:
  assumes "remove_scratch params src_dir build_dir w = (r, w')"
    and "q \<noteq> build_dir" and "q \<noteq> src_dir \<or> src_dir = src_arg params"
  shows "entries w' q = entries w q"
proof (cases "src_dir = src_arg params")
  case True
  with assms(1) have "rmtree build_dir w = (r, w')" by (simp add: remove_scratch_def)
  then show ?thesis using assms(2) by (rule rmtree_frame)
next
  case False
  with assms(3) have q: "q \<noteq> src_dir" by simp
  obtain r1 w1 where r1: "rmtree src_dir w = (r1, w1)" by (cases "rmtree src_dir w")
  from r1 q have w1: "entries w1 q = entries w q" by (rule rmtree_frame)
  show ?thesis
  proof (cases r1)
    case (Inl e)
    with False r1 assms(1) have "w' = w1" by (simp add: remove_scratch_def)
    with w1 show ?thesis by simp
  next
    case (Inr u)
    with False r1 assms(1) have "rmtree build_dir w1 = (r, w')" by (simp add: remove_scratch_def)
    then have "entries w' q = entries w1 q" using assms(2) by (rule rmtree_frame)
    with w1 show ?thesis by simp
  qed
qed

text \<open>
  When the removal statements run and none raises, the scratch directory of the archive
  and the build directory are gone.
\<close>

lemma remove_scratch_removes:
  assumes "remove_scratch params src_dir build_dir w = (Inr (), w')"
    and "src_dir \<noteq> src_arg params"
  shows "entries w' src_dir = None \<and> entries w' build_dir = None"
  using assms
  by (auto simp: remove_scratch_def rmtree_def
           split: option.splits node.splits if_splits sum.splits prod.splits)

lemma main_prepare_raises:
  "prepare_if_archive (src_arg params) w = (Inl e, w1) \<Longrightarrow> main run_command params w = (Uncaught e, w1)"
  by (simp add: main_def)

lemma main_falsy:
  assumes "prepare_if_archive (src_arg params) w = (Inr src_dir, w1)" and "falsy src_dir"
  shows "main run_command params w = (FailJson ''Source is not a directory or known archive format'', w1)"
  using assms by (simp add: main_def)

lemma main_mkdtemp_raises:
  assumes "prepare_if_archive (src_arg params) w = (Inr (Some src_dir), w1)" and "src_dir \<noteq> []"
    and "mkdtemp w1 = (Inl e, w2)"
  shows "main run_command params w = (Uncaught e, w2)"
  using assms by (simp add: main_def falsy_def find_root_cmake_def)

text \<open>
  Once the source is prepared and the build directory made, the world the run ends in is
  the one it had then (a tool could not be started), or the one the removal statements
  leave.
\<close>

lemma main_prepared_world:
  assumes "prepare_if_archive (src_arg params) w = (Inr (Some src_dir), w1)" and "src_dir \<noteq> []"
    and "mkdtemp w1 = (Inr build_dir, w2)"
  shows "snd (main run_command params w) = w2
       \<or> snd (main run_command params w) = snd (remove_scratch params src_dir build_dir w2)"
proof -
  obtain cmake_command where c: "create_cmake_command (cmake_param params) src_dir
      (install_dir_arg params) (defines_arg params) = Inr cmake_command"
    using create_cmake_command_total by blast
  obtain r3 w3 where rs: "remove_scratch params src_dir build_dir w2 = (r3, w3)"
    by (cases "remove_scratch params src_dir build_dir w2")
  from assms c rs show ?thesis
    by (cases r3)
       (auto simp: main_def falsy_def find_root_cmake_def split: sum.splits prod.splits)
qed

text \<open>What existed before the run is left as it was, on every way out.\<close>

lemma main_frame:
  assumes "entries w p \<noteq> None"
  shows "entries (snd (main run_command params w)) p = entries w p"
proof -
  obtain r w1 where pr: "prepare_if_archive (src_arg params) w = (r, w1)"
    by (cases "prepare_if_archive (src_arg params) w")
  from pr assms have w1: "entries w1 p = entries w p" by (rule prepare_if_archive_kept)
  show ?thesis
  proof (cases r)
    case (Inl e)
    with pr w1 show ?thesis by (simp add: main_prepare_raises)
  next
    case (Inr src_dir)
    show ?thesis
    proof (cases "falsy src_dir")
      case True
      with pr Inr w1 show ?thesis by (simp add: main_falsy)
    next
      case False
      then obtain d where d: "src_dir = Some d" "d \<noteq> []"
        by (cases src_dir) (auto simp: falsy_def)
      note pd = pr [unfolded Inr d(1)]
      from prepare_if_archive_Some [OF pd] assms
      have own: "p \<noteq> d \<or> d = src_arg params" by auto
      obtain r2 w2 where m: "mkdtemp w1 = (r2, w2)" by (cases "mkdtemp w1")
      show ?thesis
      proof (cases r2)
        case (Inl e)
        with pd d(2) m have "main run_command params w = (Uncaught e, w2)"
          by (intro main_mkdtemp_raises) simp_all
        moreover from m Inl have "entries w2 = entries w1" using mkdtemp_Inl by blast
        ultimately show ?thesis using w1 by simp
      next
        case (Inr build_dir)
        note mb = m [unfolded Inr]
        from mb have b: "entries w1 build_dir = None" "entries w2 = (entries w1)(build_dir \<mapsto> Dir [])"
          by (rule mkdtemp_Inr)+
        from b(1) w1 assms have pb: "p \<noteq> build_dir" by auto
        with b(2) w1 have w2: "entries w2 p = entries w p" by simp
        obtain r3 w3 where rs: "remove_scratch params d build_dir w2 = (r3, w3)"
          by (cases "remove_scratch params d build_dir w2")
        from rs pb own have "entries w3 p = entries w2 p" by (rule remove_scratch_frame)
        with w2 rs main_prepared_world [OF pd d(2) mb, of run_command] show ?thesis by auto
      qed
    qed
  qed
qed

subsection \<open>Scratch directories on the exits of the run\<close>

text \<open>
  C1 says that for an archive source both scratch directories are removed on every exit
  of \<^verbatim>\<open>main\<close>. The three exits written in \<^verbatim>\<open>main\<close> are each preceded by the
  removal statements, but \<^verbatim>\<open>module.run_command\<close> at lines 104 and 112 has an exit
  of its own: when the tool cannot be started it calls \<^verbatim>\<open>fail_json\<close> itself, before
  any \<^verbatim>\<open>rmtree\<close>. Here the source is a valid tar archive and \<^verbatim>\<open>cmake\<close> is not
  installed: the run fails at the configure step, and the directory the archive was
  unpacked into and the build directory, neither of which existed before, are both still
  there.
\<close>

theorem main_leaves_scratch_dirs_when_tool_is_missing:
  "isfile world_tar ''/proj.tar'' \<and> is_tarfile world_tar ''/proj.tar'' = Inr True
   \<and> entries world_tar ''/tmp/tmpa'' = None \<and> entries world_tar ''/tmp/tmpb'' = None
   \<and> fst (main run_no_cmake (args_for ''/proj.tar'') world_tar)
       = FailJson ''[Errno 2] No such file or directory: cmake''
   \<and> entries (snd (main run_no_cmake (args_for ''/proj.tar'') world_tar)) ''/tmp/tmpa''
       = Some (Dir [Plain ''CMakeLists.txt''])
   \<and> entries (snd (main run_no_cmake (args_for ''/proj.tar'') world_tar)) ''/tmp/tmpb''
       = Some (Dir [])"
  by (simp add: os_defs module_defs example_defs Let_def)

subsection \<open>The failure message\<close>

text \<open>
  C2 says that the failure message holds the exit code and the diagnostic stream of the
  failing tool. The message is \<^verbatim>\<open>'Failed to generate build files, exit code %s' % (err)\<close>
  on both failure exits: the diagnostic stream stands where the words announce the exit
  code, and the exit code is nowhere. Here the configure tool ends with code 2 and writes
  \<^verbatim>\<open>boom\<close>, and the install tool ends with code 3 and writes \<^verbatim>\<open>bang\<close>.
\<close>

theorem main_failure_message_without_exit_code:
  "fst (main run_fails (args_for ''/src'') world_dir)
     = FailJson ''Failed to generate build files, exit code boom''
   \<and> run_fails ''cmake -DCMAKE_INSTALL_PREFIX=/opt/x /src'' ''/tmp/tmpa'' world_dir
       = Inr (2, [], ''boom'')
   \<and> \<not> sublist ''2'' ''Failed to generate build files, exit code boom''
   \<and> fst (main run_install_fails (args_for ''/src'') world_dir)
     = FailJson ''Failed to generate build files, exit code bang''
   \<and> run_install_fails ''make install'' ''/tmp/tmpa'' world_dir = Inr (3, [], ''bang'')
   \<and> \<not> sublist ''3'' ''Failed to generate build files, exit code bang''"
proof -
  have "fst (main run_fails (args_for ''/src'') world_dir)
          = FailJson ''Failed to generate build files, exit code boom''"
    by (simp add: os_defs module_defs example_defs Let_def)
  moreover have "fst (main run_install_fails (args_for ''/src'') world_dir)
          = FailJson ''Failed to generate build files, exit code bang''"
    by (simp add: os_defs module_defs example_defs Let_def)
  moreover have "\<not> sublist ''2'' ''Failed to generate build files, exit code boom''"
    by code_simp
  moreover have "\<not> sublist ''3'' ''Failed to generate build files, exit code bang''"
    by code_simp
  ultimately show ?thesis by (simp add: run_fails_def run_install_fails_def)
qed

subsection \<open>The input error\<close>




subsection \<open>The source directory\<close>

text \<open>
  C7: when the source is a directory that exists before the run, it is still there, with
  what it held, in the world the run ends in, whatever the exit; and every entry that
  existed before the run is kept (only what the run made is removed).
\<close>

theorem main_keeps_source_directory:
  assumes "isdir w (src_arg params)"
  shows "isdir (snd (main run_command params w)) (src_arg params)
       \<and> entries (snd (main run_command params w)) (src_arg params) = entries w (src_arg params)
       \<and> (\<forall>p. entries w p \<noteq> None \<longrightarrow> entries (snd (main run_command params w)) p = entries w p)"
proof -
  from assms have "entries w (src_arg params) \<noteq> None"
    by (auto simp: isdir_def split: option.splits)
  then have "entries (snd (main run_command params w)) (src_arg params) = entries w (src_arg params)"
    by (rule main_frame)
  with assms show ?thesis by (simp add: isdir_def main_frame)
qed

theorem main_keeps_source_directory_witness:
  "isdir world_dir ''/src''
   \<and> isdir (snd (main run_fails (args_for ''/src'') world_dir)) ''/src''
   \<and> entries (snd (main run_fails (args_for ''/src'') world_dir)) ''/src''
       = Some (Dir [Plain ''CMakeLists.txt''])"
proof -
  have s: "src_arg (args_for ''/src'') = ''/src''" by (simp add: args_for_def)
  have d: "isdir world_dir (src_arg (args_for ''/src''))"
    by (simp add: s isdir_def world_dir_def)
  from main_keeps_source_directory [OF d, of run_fails] d show ?thesis
    by (simp add: s world_dir_def)
qed

subsection \<open>The success record\<close>

text \<open>
  Both tools ending with code zero does not make the run report success: the removal
  statements of lines 120 to 122 stand before \<^verbatim>\<open>exit_json\<close>. Here the archive holds
  a directory without write permission; both tools end with code zero,
  \<^verbatim>\<open>rmtree(src_dir)\<close> raises \<^verbatim>\<open>PermissionError\<close> and no record is reported.
\<close>

theorem main_success_counterexample:
  "is_tarfile world_locked ''/locked.tar'' = Inr True
   \<and> run_ok ''cmake -DCMAKE_INSTALL_PREFIX=/opt/x /tmp/tmpa'' ''/tmp/tmpb'' world_locked
       = Inr (0, [], [])
   \<and> run_ok ''make install'' ''/tmp/tmpb'' world_locked = Inr (0, [], [])
   \<and> fst (main run_ok (args_for ''/locked.tar'') world_locked) = Uncaught PermissionError
   \<and> fst (main run_ok (args_for ''/locked.tar'') world_locked) \<noteq> ExitJson True ''/opt/x''"
  by (simp add: os_defs module_defs example_defs Let_def)

text \<open>
  C8, amended: when the source is prepared, the build directory made, the configure tool
  and the install tool both end with code zero, and the removal of the scratch
  directories does not raise, the run reports success with \<^verbatim>\<open>changed=True\<close> and the
  install directory the caller gave.
\<close>

theorem main_success:
  assumes "prepare_if_archive (src_arg params) w = (Inr (Some src_dir), w1)" and "src_dir \<noteq> []"
    and "mkdtemp w1 = (Inr build_dir, w2)"
    and "create_cmake_command (cmake_param params) src_dir (install_dir_arg params)
           (defines_arg params) = Inr cmake_command"
    and "run_command cmake_command build_dir w2 = Inr (0, out1, err1)"
    and "run_command ''make install'' build_dir w2 = Inr (0, out2, err2)"
    and "remove_scratch params src_dir build_dir w2 = (Inr (), w3)"
  shows "main run_command params w = (ExitJson True (install_dir_arg params), w3)"
  using assms by (simp add: main_def falsy_def find_root_cmake_def)

theorem main_success_witness:
  "fst (main run_ok (args_for ''/src'') world_dir) = ExitJson True ''/opt/x''"
proof -
  let ?params = "args_for ''/src''"
  let ?w2 = "snd (mkdtemp world_dir)"
  let ?command = "''cmake -DCMAKE_INSTALL_PREFIX=/opt/x /src''"
  have p: "prepare_if_archive (src_arg ?params) world_dir = (Inr (Some ''/src''), world_dir)"
    by (simp add: prepare_if_archive_def isdir_def example_defs)
  have n: "''/src'' \<noteq> []" by simp
  have m: "mkdtemp world_dir = (Inr ''/tmp/tmpa'', ?w2)"
    by (simp add: mkdtemp_def world_dir_def)
  have c: "create_cmake_command (cmake_param ?params) ''/src'' (install_dir_arg ?params)
             (defines_arg ?params) = Inr ?command"
    by (simp add: create_cmake_command_def cmake_param_def args_for_def)
  have r1: "run_ok ?command ''/tmp/tmpa'' ?w2 = Inr (0, [], [])"
    and r2: "run_ok ''make install'' ''/tmp/tmpa'' ?w2 = Inr (0, [], [])"
    by (simp_all add: run_ok_def)
  have rs: "remove_scratch ?params ''/src'' ''/tmp/tmpa'' ?w2
              = (Inr (), snd (remove_scratch ?params ''/src'' ''/tmp/tmpa'' ?w2))"
    by (simp add: remove_scratch_def rmtree_def mkdtemp_def example_defs)
  from main_success [where run_command = run_ok, OF p n m c r1 r2 rs] show ?thesis
    by (simp add: args_for_def)
qed

subsection \<open>The location error\<close>

text \<open>
  C10: the root locator gives back the directory it is given, so the check after it can
  never fail: no run ends with the message
  \<^verbatim>\<open>Could not find CMake root directory\<close>.
\<close>

theorem main_never_location_error:
  "find_root_cmake (Some src_dir) = Some src_dir
   \<and> fst (main run_command params w) \<noteq> FailJson ''Could not find CMake root directory''"
  by (auto simp: main_def falsy_def find_root_cmake_def to_native_def
           split: prod.splits sum.splits option.splits if_splits os_error.splits)

end
